theory Spec2Isabelle
  imports Main
begin

section \<open>Python values and string helpers\<close>

text \<open>
  The program is \<^verbatim>\<open>src/import_users.py\<close>. Python strings are modelled as \<^typ>\<open>string\<close>;
  \<open>None\<close>-able strings (\<^verbatim>\<open>Optional[str]\<close>) as \<^typ>\<open>string option\<close>. Dictionaries whose
  keys are built by the program are association lists in insertion order, as Python keeps
  them.
\<close>

datatype pyval = PNone | PBool bool | PStr string | PDict "(string \<times> pyval) list"

type_synonym pydict = "(string \<times> pyval) list"

text \<open>\<^verbatim>\<open>d.get(k)\<close>: the value stored under a key, if any.\<close>

fun dict_get :: "pydict \<Rightarrow> string \<Rightarrow> pyval option" where
  "dict_get [] k = None"
| "dict_get ((k', v) # d) k = (if k' = k then Some v else dict_get d k)"

text \<open>\<^verbatim>\<open>d[k] = v\<close>: overwrite in place, or append a new key at the end.\<close>

fun dict_set :: "pydict \<Rightarrow> string \<Rightarrow> pyval \<Rightarrow> pydict" where
  "dict_set [] k v = [(k, v)]"
| "dict_set ((k', v') # d) k v = (if k' = k then (k', v) # d else (k', v') # dict_set d k v)"

text \<open>\<^verbatim>\<open>d.pop(k, None)\<close>, used for its effect on \<open>d\<close> only.\<close>

definition dict_pop :: "pydict \<Rightarrow> string \<Rightarrow> pydict" where
  "dict_pop d k = filter (\<lambda>(k', v). k' \<noteq> k) d"

text \<open>Truthiness of an \<^verbatim>\<open>Optional[str]\<close>: \<open>None\<close> and the empty string are falsy.\<close>

fun truthy :: "string option \<Rightarrow> bool" where
  "truthy None = False"
| "truthy (Some v) = (v \<noteq> [])"

text \<open>What an f-string prints for an \<^verbatim>\<open>Optional[str]\<close>: \<open>None\<close> is rendered as the text \<open>None\<close>.\<close>

fun fstr :: "string option \<Rightarrow> string" where
  "fstr None = ''None''"
| "fstr (Some v) = v"

text \<open>
  \<^verbatim>\<open>str.lower()\<close> and \<^verbatim>\<open>str.strip()\<close> on the ASCII range. Python also lower-cases and
  strips non-ASCII code points; no non-ASCII code point lower-cases to one of the letters
  of \<open>true\<close>, so the comparison with \<open>"true"\<close> below is not affected.
\<close>

definition lower_char :: "char \<Rightarrow> char" where
  "lower_char c =
     (let n = (of_char c :: nat) in if 65 \<le> n \<and> n \<le> 90 then char_of (n + 32) else c)"

definition lower :: "string \<Rightarrow> string" where
  "lower s = map lower_char s"

definition isspace :: "char \<Rightarrow> bool" where
  "isspace c = (let n = (of_char c :: nat) in (9 \<le> n \<and> n \<le> 13) \<or> (28 \<le> n \<and> n \<le> 32))"

definition strip :: "string \<Rightarrow> string" where
  "strip s = rev (dropWhile isspace (rev (dropWhile isspace s)))"

text \<open>\<^verbatim>\<open>sub in s\<close> on strings: \<open>sub\<close> occurs in \<open>s\<close> as a contiguous run.\<close>

fun starts_with :: "string \<Rightarrow> string \<Rightarrow> bool" where
  "starts_with [] s = True"
| "starts_with (p # ps) [] = False"
| "starts_with (p # ps) (c # cs) = (p = c \<and> starts_with ps cs)"

fun str_in :: "string \<Rightarrow> string \<Rightarrow> bool" where
  "str_in sub [] = (sub = [])"
| "str_in sub (c # cs) = (starts_with sub (c # cs) \<or> str_in sub cs)"

text \<open>\<^verbatim>\<open>str(n)\<close> for the non-negative counters the program logs.\<close>

fun str_nat :: "nat \<Rightarrow> string" where
  "str_nat n =
     (if n < 10 then [char_of (48 + n)] else str_nat (n div 10) @ [char_of (48 + n mod 10)])"

declare str_nat.simps [simp del]

section \<open>Source records and the pure mappers\<close>

text \<open>
  A source user record as the JSON export holds it. The two dates are carried through
  unchanged, whatever JSON value they are.
\<close>

record user_data =
  Username :: string
  Attributes :: "(string \<times> string) list"
  UserCreateDate :: pyval
  UserLastModifiedDate :: pyval
  Enabled :: bool
  UserStatus :: string

text \<open>The fields of \<^verbatim>\<open>auth.UserRecord\<close> that the program reads.\<close>

record user_record =
  uid :: string
  email :: "string option"

text \<open>\<^verbatim>\<open>next((attr["Value"] for attr in attributes if attr["Name"] == name), None)\<close>\<close>

fun get_attribute_value :: "(string \<times> string) list \<Rightarrow> string \<Rightarrow> string option" where
  "get_attribute_value [] name = None"
| "get_attribute_value ((n, v) # attributes) name =
     (if n = name then Some v else get_attribute_value attributes name)"

text \<open>An \<^verbatim>\<open>Optional[str]\<close> stored as a dictionary value.\<close>

fun opt_val :: "string option \<Rightarrow> pyval" where
  "opt_val None = PNone"
| "opt_val (Some v) = PStr v"

definition create_firestore_user_data :: "user_data \<Rightarrow> user_record \<Rightarrow> pydict" where
  "create_firestore_user_data user_data user_record =
     (let attributes = Attributes user_data in
      [(''Username'', PStr (Username user_data)),
       (''Attributes'', PDict
          [(''email'', opt_val (get_attribute_value attributes ''email'')),
           (''email_verified'',
              PBool (get_attribute_value attributes ''email_verified'' = Some ''true'')),
           (''phone_number'', opt_val (get_attribute_value attributes ''phone_number'')),
           (''phone_number_verified'',
              PBool (get_attribute_value attributes ''phone_number_verified'' = Some ''true'')),
           (''family_name'', opt_val (get_attribute_value attributes ''family_name'')),
           (''given_name'', opt_val (get_attribute_value attributes ''given_name'')),
           (''sub'', opt_val (get_attribute_value attributes ''sub''))]),
       (''UserCreateDate'', UserCreateDate user_data),
       (''UserLastModifiedDate'', UserLastModifiedDate user_data),
       (''Enabled'', PBool (Enabled user_data)),
       (''UserStatus'', PStr (UserStatus user_data)),
       (''firebase_uid'', PStr (uid user_record))])"

text \<open>
  Lines 60 to 74 of \<^verbatim>\<open>migrate_user\<close>: the keyword arguments of \<^verbatim>\<open>auth.create_user\<close>,
  built once the email is known to be non-empty.
\<close>

definition user_kwargs :: "user_data \<Rightarrow> string \<Rightarrow> pydict" where
  "user_kwargs user_data email_v =
     (let attributes = Attributes user_data;
          email_verified = get_attribute_value attributes ''email_verified'';
          phone_number = get_attribute_value attributes ''phone_number'';
          given_name = get_attribute_value attributes ''given_name'';
          family_name = get_attribute_value attributes ''family_name'';
          kw = [(''uid'', PStr (Username user_data)),
                (''email'', PStr email_v),
                (''password'', PStr ''Default@123''),
                (''email_verified'',
                   PBool (if truthy email_verified
                          then lower (fstr email_verified) = ''true'' else False)),
                (''display_name'',
                   (if truthy given_name \<or> truthy family_name
                    then PStr (strip (fstr given_name @ '' '' @ fstr family_name))
                    else PNone)),
                (''disabled'', PBool (\<not> Enabled user_data))];
          kw' = (if truthy phone_number
                 then dict_set kw ''phone_number'' (PStr (fstr phone_number)) else kw)
      in filter (\<lambda>(k, v). v \<noteq> PNone) kw')"

section \<open>The external platforms, their calls and the log\<close>

text \<open>
  An exception is a value: its class, as far as an \<^verbatim>\<open>except\<close> clause of the program tells
  classes apart, and its message \<^verbatim>\<open>str(e)\<close>. Every class is a subclass of
  \<^verbatim>\<open>Exception\<close>.
\<close>

datatype exn = UserNotFoundError string | ValueError string | Exception string

fun str_exn :: "exn \<Rightarrow> string" where
  "str_exn (UserNotFoundError m) = m"
| "str_exn (ValueError m) = m"
| "str_exn (Exception m) = m"

text \<open>
  What \<^verbatim>\<open>auth.list_users()\<close> hands back: a page of identities together with what its
  \<^verbatim>\<open>get_next_page()\<close> will do (return \<open>None\<close>, return a further page, or raise). A page
  object is always truthy.
\<close>

datatype page =
    LastPage "user_record list"
  | MorePages "user_record list" page
  | BrokenPage "user_record list" exn

text \<open>
  What \<^verbatim>\<open>users_ref.stream()\<close> hands back: the ids of the documents, produced one at a
  time; producing the next one may raise.
\<close>

datatype doc_stream = StreamEnd | StreamDoc string doc_stream | StreamFails exn

text \<open>Every call to the identity platform or the document store, with its result.\<close>

datatype event =
    GetApp "exn + unit"
  | Certificate string "exn + unit"
  | InitializeApp "exn + unit"
  | FirestoreClient "exn + unit"
  | GetUserByEmail string "exn + user_record"
  | CreateUser pydict "exn + user_record"
  | GeneratePasswordResetLink string "exn + string"
  | SetDocument string pydict bool "exn + unit"
  | StreamDocuments "exn + doc_stream"
  | DeleteDocument string "exn + unit"
  | ListUsers "exn + page"
  | DeleteUser string "exn + unit"

datatype level = INFO | WARNING | ERROR

text \<open>
  The state a run threads through: the state \<open>'w\<close> of the outside world, the calls made
  so far, and the lines appended to \<^verbatim>\<open>migration.log\<close>.
\<close>

record 'w state =
  world :: 'w
  trace :: "event list"
  logged :: "(level \<times> string) list"

text \<open>
  The two SDKs are external: each operation is a parameter, free to return or to raise
  and to change the world as it likes.
\<close>

record 'w platform =
  get_app :: "'w \<Rightarrow> (exn + unit) \<times> 'w"
  certificate :: "string \<Rightarrow> 'w \<Rightarrow> (exn + unit) \<times> 'w"
  initialize_app :: "'w \<Rightarrow> (exn + unit) \<times> 'w"
  firestore_client :: "'w \<Rightarrow> (exn + unit) \<times> 'w"
  get_user_by_email :: "string \<Rightarrow> 'w \<Rightarrow> (exn + user_record) \<times> 'w"
  create_user :: "pydict \<Rightarrow> 'w \<Rightarrow> (exn + user_record) \<times> 'w"
  generate_password_reset_link :: "string \<Rightarrow> 'w \<Rightarrow> (exn + string) \<times> 'w"
  set_document :: "string \<Rightarrow> pydict \<Rightarrow> bool \<Rightarrow> 'w \<Rightarrow> (exn + unit) \<times> 'w"
  stream_documents :: "'w \<Rightarrow> (exn + doc_stream) \<times> 'w"
  delete_document :: "string \<Rightarrow> 'w \<Rightarrow> (exn + unit) \<times> 'w"
  list_users :: "'w \<Rightarrow> (exn + page) \<times> 'w"
  delete_user :: "string \<Rightarrow> 'w \<Rightarrow> (exn + unit) \<times> 'w"

text \<open>Make one external call and record it with its result.\<close>

definition perform ::
  "('w \<Rightarrow> (exn + 'a) \<times> 'w) \<Rightarrow> ((exn + 'a) \<Rightarrow> event) \<Rightarrow> 'w state \<Rightarrow> (exn + 'a) \<times> 'w state" where
  "perform f ev s =
     (case f (world s) of (r, w') \<Rightarrow> (r, s\<lparr>world := w', trace := trace s @ [ev r]\<rparr>))"

definition logging :: "level \<Rightarrow> string \<Rightarrow> 'w state \<Rightarrow> 'w state" where
  "logging l msg s = s\<lparr>logged := logged s @ [(l, msg)]\<rparr>"

section \<open>The migration worker\<close>

text \<open>
  Lines 81 to 94: create the identity; on a failure whose message names a phone-number
  problem, create it again without the phone number; re-raise any other failure.
\<close>

definition phone_issue :: "exn \<Rightarrow> bool" where
  "phone_issue e =
     (str_in ''INVALID_PHONE_NUMBER'' (str_exn e) \<or> str_in ''PHONE_NUMBER_EXISTS'' (str_exn e))"

definition create_with_retry ::
  "'w platform \<Rightarrow> pydict \<Rightarrow> string \<Rightarrow> 'w state \<Rightarrow> (exn + user_record) \<times> 'w state" where
  "create_with_retry P kw email_v s =
     (case perform (create_user P kw) (CreateUser kw) s of
        (Inr user_record, s1) \<Rightarrow>
          (Inr user_record, logging INFO (''Created Auth user with phone: '' @ email_v) s1)
      | (Inl e, s1) \<Rightarrow>
          if phone_issue e
          then
            (let s2 = logging WARNING
                        (''Phone number issue for '' @ email_v @ '': '' @ str_exn e
                           @ ''. Creating user without phone.'') s1;
                 kw' = dict_pop kw ''phone_number''
             in case perform (create_user P kw') (CreateUser kw') s2 of
                  (Inr user_record, s3) \<Rightarrow>
                    (Inr user_record,
                     logging INFO (''Created Auth user without phone: '' @ email_v) s3)
                | (Inl e', s3) \<Rightarrow> (Inl e', s3))
          else (Inl e, s1))"

text \<open>
  Lines 76 to 98: look the identity up by email; if it is not found, create it and
  generate a password-reset link.
\<close>

definition lookup_or_create ::
  "'w platform \<Rightarrow> pydict \<Rightarrow> string \<Rightarrow> 'w state \<Rightarrow> (exn + user_record) \<times> 'w state" where
  "lookup_or_create P kw email_v s =
     (case perform (get_user_by_email P email_v) (GetUserByEmail email_v) s of
        (Inr user_record, s1) \<Rightarrow>
          (Inr user_record, logging INFO (''User '' @ email_v @ '' already exists in Auth'') s1)
      | (Inl (UserNotFoundError m), s1) \<Rightarrow>
          (case create_with_retry P kw email_v s1 of
             (Inl e, s2) \<Rightarrow> (Inl e, s2)
           | (Inr user_record, s2) \<Rightarrow>
               (case perform (generate_password_reset_link P email_v)
                       (GeneratePasswordResetLink email_v) s2 of
                  (Inl e, s3) \<Rightarrow> (Inl e, s3)
                | (Inr reset_link, s3) \<Rightarrow>
                    (Inr user_record,
                     logging INFO
                       (''Password reset link for '' @ email_v @ '': '' @ reset_link) s3)))
      | (Inl e, s1) \<Rightarrow> (Inl e, s1))"

text \<open>Lines 59 to 109: the body of the outer \<^verbatim>\<open>try\<close>.\<close>

definition migrate_body ::
  "'w platform \<Rightarrow> user_data \<Rightarrow> string \<Rightarrow> 'w state \<Rightarrow> (exn + user_record) \<times> 'w state" where
  "migrate_body P user_data email_v s =
     (let kw = user_kwargs user_data email_v in
      case lookup_or_create P kw email_v s of
        (Inl e, s1) \<Rightarrow> (Inl e, s1)
      | (Inr user_record, s1) \<Rightarrow>
          (let firestore_data = create_firestore_user_data user_data user_record in
           case perform (set_document P (uid user_record) firestore_data True)
                  (SetDocument (uid user_record) firestore_data True) s1 of
             (Inl e, s2) \<Rightarrow> (Inl e, s2)
           | (Inr u, s2) \<Rightarrow>
               (Inr user_record,
                logging INFO (''Updated Firestore data for user: '' @ email_v) s2)))"

text \<open>
  \<^verbatim>\<open>migrate_user\<close>. The result type leaves room for an exception that escapes to the
  caller (\<open>Inl\<close>); \<open>Inr None\<close> is Python's \<open>None\<close>.
\<close>

definition migrate_user ::
  "'w platform \<Rightarrow> user_data \<Rightarrow> 'w state \<Rightarrow> (exn + user_record option) \<times> 'w state" where
  "migrate_user P user_data s =
     (let email_o = get_attribute_value (Attributes user_data) ''email'' in
      if \<not> truthy email_o
      then (Inr None, logging WARNING ''Skipping user: No email found'' s)
      else
        (case migrate_body P user_data (fstr email_o) s of
           (Inr user_record, s1) \<Rightarrow> (Inr (Some user_record), s1)
         | (Inl e, s1) \<Rightarrow>
             (Inr None,
              logging ERROR
                (''Error migrating user '' @ fstr email_o @ '': '' @ str_exn e) s1)))"

section \<open>The migration action of the driver\<close>

record stats =
  total :: nat
  success :: nat
  failed :: nat

text \<open>
  Lines 223 to 228: a \<^verbatim>\<open>UserRecord\<close> is truthy, \<open>None\<close> is not. An exception out of
  \<^verbatim>\<open>migrate_user\<close> would end the loop.
\<close>

fun process_users ::
  "'w platform \<Rightarrow> user_data list \<Rightarrow> stats \<Rightarrow> 'w state \<Rightarrow> (exn + stats) \<times> 'w state" where
  "process_users P [] st s = (Inr st, s)"
| "process_users P (user # users) st s =
     (case migrate_user P user s of
        (Inl e, s1) \<Rightarrow> (Inl e, s1)
      | (Inr result, s1) \<Rightarrow>
          if result \<noteq> None
          then process_users P users (st\<lparr>success := success st + 1\<rparr>) s1
          else process_users P users (st\<lparr>failed := failed st + 1\<rparr>) s1)"

text \<open>Lines 216 to 234, given the parsed \<^verbatim>\<open>cognito_data["Users"]\<close>.\<close>

definition migrate_users ::
  "'w platform \<Rightarrow> user_data list \<Rightarrow> 'w state \<Rightarrow> (exn + stats) \<times> 'w state" where
  "migrate_users P users s =
     (case process_users P users \<lparr>total = length users, success = 0, failed = 0\<rparr> s of
        (Inl e, s1) \<Rightarrow> (Inl e, s1)
      | (Inr st, s1) \<Rightarrow>
          (Inr st,
           logging INFO (''Failed to migrate: '' @ str_nat (failed st))
             (logging INFO (''Successfully migrated: '' @ str_nat (success st))
               (logging INFO (''Total users processed: '' @ str_nat (total st))
                 (logging INFO ''Migration completed!'' s1)))))"

section \<open>The bulk deleters\<close>

text \<open>
  Lines 119 to 123 and 156 to 160: reuse the application handle, or initialise it from
  the credential file when \<^verbatim>\<open>get_app\<close> raises \<^verbatim>\<open>ValueError\<close>.
\<close>

definition ensure_app :: "'w platform \<Rightarrow> 'w state \<Rightarrow> (exn + unit) \<times> 'w state" where
  "ensure_app P s =
     (case perform (get_app P) GetApp s of
        (Inr app, s1) \<Rightarrow> (Inr (), s1)
      | (Inl (ValueError m), s1) \<Rightarrow>
          (case perform (certificate P ''service-account.json'')
                  (Certificate ''service-account.json'') s1 of
             (Inl e, s2) \<Rightarrow> (Inl e, s2)
           | (Inr cred, s2) \<Rightarrow> perform (initialize_app P) InitializeApp s2)
      | (Inl e, s1) \<Rightarrow> (Inl e, s1))"

text \<open>Lines 136 to 143: the loop over the streamed documents, with its two counters.\<close>

fun delete_docs ::
  "'w platform \<Rightarrow> doc_stream \<Rightarrow> nat \<times> nat \<Rightarrow> 'w state \<Rightarrow> (exn + nat \<times> nat) \<times> 'w state" where
  "delete_docs P StreamEnd c s = (Inr c, s)"
| "delete_docs P (StreamFails e) c s = (Inl e, s)"
| "delete_docs P (StreamDoc doc_id docs) (deleted_count, failed_count) s =
     (case perform (delete_document P doc_id) (DeleteDocument doc_id) s of
        (Inr u, s1) \<Rightarrow>
          delete_docs P docs (deleted_count + 1, failed_count)
            (logging INFO (''Deleted Firestore data for user: '' @ doc_id) s1)
      | (Inl e, s1) \<Rightarrow>
          delete_docs P docs (deleted_count, failed_count + 1)
            (logging ERROR
               (''Failed to delete Firestore data for user '' @ doc_id @ '': '' @ str_exn e) s1))"

text \<open>Lines 118 to 146: the body of the \<^verbatim>\<open>try\<close> of \<^verbatim>\<open>delete_firestore_users\<close>.\<close>

definition delete_firestore_body ::
  "'w platform \<Rightarrow> 'w state \<Rightarrow> (exn + nat \<times> nat) \<times> 'w state" where
  "delete_firestore_body P s =
     (case ensure_app P s of
        (Inl e, s1) \<Rightarrow> (Inl e, s1)
      | (Inr u, s1) \<Rightarrow>
     (case perform (firestore_client P) FirestoreClient s1 of
        (Inl e, s2) \<Rightarrow> (Inl e, s2)
      | (Inr db, s2) \<Rightarrow>
     (case perform (stream_documents P) StreamDocuments s2 of
        (Inl e, s3) \<Rightarrow> (Inl e, s3)
      | (Inr docs, s3) \<Rightarrow>
     (case delete_docs P docs (0, 0) s3 of
        (Inl e, s4) \<Rightarrow> (Inl e, s4)
      | (Inr (deleted_count, failed_count), s4) \<Rightarrow>
          (Inr (deleted_count, failed_count),
           logging INFO
             (''Firestore deletion completed! Deleted: '' @ str_nat deleted_count
                @ '', Failed: '' @ str_nat failed_count) s4)))))"

definition delete_firestore_users ::
  "'w platform \<Rightarrow> 'w state \<Rightarrow> (exn + nat \<times> nat) \<times> 'w state" where
  "delete_firestore_users P s =
     (case delete_firestore_body P s of
        (Inl e, s1) \<Rightarrow>
          (Inl e, logging ERROR (''Fatal error during Firestore deletion: '' @ str_exn e) s1)
      | (Inr c, s1) \<Rightarrow> (Inr c, s1))"

text \<open>Lines 174 to 182: the loop over the identities of one page.\<close>

fun delete_page_users ::
  "'w platform \<Rightarrow> user_record list \<Rightarrow> nat \<times> nat \<Rightarrow> 'w state \<Rightarrow> (nat \<times> nat) \<times> 'w state" where
  "delete_page_users P [] c s = (c, s)"
| "delete_page_users P (user # users) (auth_deleted, auth_failed) s =
     (case perform (delete_user P (uid user)) (DeleteUser (uid user)) s of
        (Inr u, s1) \<Rightarrow>
          delete_page_users P users (auth_deleted + 1, auth_failed)
            (logging INFO
               (''Deleted auth user '' @ fstr (email user) @ '' (UID: '' @ uid user @ '')'') s1)
      | (Inl e, s1) \<Rightarrow>
          delete_page_users P users (auth_deleted, auth_failed + 1)
            (logging ERROR
               (''Failed to delete auth user '' @ fstr (email user) @ '': '' @ str_exn e) s1))"

text \<open>Lines 173 to 185: the loop over the pages.\<close>

fun delete_pages ::
  "'w platform \<Rightarrow> page \<Rightarrow> nat \<times> nat \<Rightarrow> 'w state \<Rightarrow> (exn + nat \<times> nat) \<times> 'w state" where
  "delete_pages P (LastPage users) c s =
     (case delete_page_users P users c s of (c', s1) \<Rightarrow> (Inr c', s1))"
| "delete_pages P (MorePages users next_page) c s =
     (case delete_page_users P users c s of (c', s1) \<Rightarrow> delete_pages P next_page c' s1)"
| "delete_pages P (BrokenPage users e) c s =
     (case delete_page_users P users c s of (c', s1) \<Rightarrow> (Inl e, s1))"

text \<open>Lines 163 to 165: delete the stored documents first, if asked to, and log the tallies.\<close>

definition cascade_to_store :: "'w platform \<Rightarrow> bool \<Rightarrow> 'w state \<Rightarrow> (exn + unit) \<times> 'w state" where
  "cascade_to_store P delete_firestore s =
     (if delete_firestore
      then (case delete_firestore_users P s of
              (Inl e, s1) \<Rightarrow> (Inl e, s1)
            | (Inr (firestore_deleted, firestore_failed), s1) \<Rightarrow>
                (Inr (),
                 logging INFO
                   (''Firestore deletion: Deleted '' @ str_nat firestore_deleted
                      @ '', Failed '' @ str_nat firestore_failed) s1))
      else (Inr (), s))"

text \<open>Lines 155 to 188: the body of the \<^verbatim>\<open>try\<close> of \<^verbatim>\<open>delete_auth_users\<close>.\<close>

definition delete_auth_body ::
  "'w platform \<Rightarrow> bool \<Rightarrow> 'w state \<Rightarrow> (exn + nat \<times> nat) \<times> 'w state" where
  "delete_auth_body P delete_firestore s =
     (case ensure_app P s of
        (Inl e, s1) \<Rightarrow> (Inl e, s1)
      | (Inr u, s1) \<Rightarrow>
     (case cascade_to_store P delete_firestore s1 of
        (Inl e, s2) \<Rightarrow> (Inl e, s2)
      | (Inr u', s2) \<Rightarrow>
     (case perform (list_users P) ListUsers s2 of
        (Inl e, s3) \<Rightarrow> (Inl e, s3)
      | (Inr first_page, s3) \<Rightarrow>
     (case delete_pages P first_page (0, 0) s3 of
        (Inl e, s4) \<Rightarrow> (Inl e, s4)
      | (Inr (auth_deleted, auth_failed), s4) \<Rightarrow>
          (Inr (auth_deleted, auth_failed),
           logging INFO
             (''Auth deletion completed! Deleted: '' @ str_nat auth_deleted
                @ '', Failed: '' @ str_nat auth_failed) s4)))))"

definition delete_auth_users ::
  "'w platform \<Rightarrow> bool \<Rightarrow> 'w state \<Rightarrow> (exn + nat \<times> nat) \<times> 'w state" where
  "delete_auth_users P delete_firestore s =
     (case delete_auth_body P delete_firestore s of
        (Inl e, s1) \<Rightarrow> (Inl e, logging ERROR (''Fatal error during deletion: '' @ str_exn e) s1)
      | (Inr c, s1) \<Rightarrow> (Inr c, s1))"

section \<open>Reading a run\<close>

text \<open>The identities a page listing delivers before it ends or breaks.\<close>

fun listed_users :: "page \<Rightarrow> user_record list" where
  "listed_users (LastPage users) = users"
| "listed_users (MorePages users next_page) = users @ listed_users next_page"
| "listed_users (BrokenPage users e) = users"

text \<open>Whether every \<^verbatim>\<open>get_next_page\<close> of the listing returns.\<close>

fun listing_ok :: "page \<Rightarrow> bool" where
  "listing_ok (LastPage users) = True"
| "listing_ok (MorePages users next_page) = listing_ok next_page"
| "listing_ok (BrokenPage users e) = False"

text \<open>The uids of the \<^verbatim>\<open>auth.delete_user\<close> calls of a trace, in order.\<close>

fun delete_attempts :: "event list \<Rightarrow> string list" where
  "delete_attempts [] = []"
| "delete_attempts (DeleteUser u r # evs) = u # delete_attempts evs"
| "delete_attempts (ev # evs) = delete_attempts evs"

text \<open>How many \<^verbatim>\<open>auth.delete_user\<close> calls of a trace returned, and how many raised.\<close>

fun deletes_ok :: "event list \<Rightarrow> nat" where
  "deletes_ok [] = 0"
| "deletes_ok (DeleteUser u (Inr x) # evs) = Suc (deletes_ok evs)"
| "deletes_ok (ev # evs) = deletes_ok evs"

fun deletes_raised :: "event list \<Rightarrow> nat" where
  "deletes_raised [] = 0"
| "deletes_raised (DeleteUser u (Inl e) # evs) = Suc (deletes_raised evs)"
| "deletes_raised (ev # evs) = deletes_raised evs"

text \<open>The \<^verbatim>\<open>auth.create_user\<close> calls of a trace: their keyword arguments, in order.\<close>

fun create_calls :: "event list \<Rightarrow> pydict list" where
  "create_calls [] = []"
| "create_calls (CreateUser kw r # evs) = kw # create_calls evs"
| "create_calls (ev # evs) = create_calls evs"

text \<open>The exception an external call ended with, if it raised.\<close>

fun raised_of :: "exn + 'a \<Rightarrow> exn option" where
  "raised_of (Inl e) = Some e"
| "raised_of (Inr x) = None"

fun raised :: "event \<Rightarrow> exn option" where
  "raised (GetApp r) = raised_of r"
| "raised (Certificate path r) = raised_of r"
| "raised (InitializeApp r) = raised_of r"
| "raised (FirestoreClient r) = raised_of r"
| "raised (GetUserByEmail e r) = raised_of r"
| "raised (CreateUser kw r) = raised_of r"
| "raised (GeneratePasswordResetLink e r) = raised_of r"
| "raised (SetDocument doc_id doc merge r) = raised_of r"
| "raised (StreamDocuments r) = raised_of r"
| "raised (DeleteDocument doc_id r) = raised_of r"
| "raised (ListUsers r) = raised_of r"
| "raised (DeleteUser u r) = raised_of r"

text \<open>Calls to the identity platform that list or delete identities.\<close>

fun is_auth_event :: "event \<Rightarrow> bool" where
  "is_auth_event (ListUsers r) = True"
| "is_auth_event (DeleteUser u r) = True"
| "is_auth_event ev = False"

text \<open>The events a run added to the trace it started from.\<close>

definition new_events :: "'w state \<Rightarrow> 'w state \<Rightarrow> event list" where
  "new_events s s' = drop (length (trace s)) (trace s')"

definition new_logged :: "'w state \<Rightarrow> 'w state \<Rightarrow> (level \<times> string) list" where
  "new_logged s s' = drop (length (logged s)) (logged s')"

section \<open>The merge write of the document store\<close>

text \<open>
  Modelled from the spec: the document store is an external service and its write is not
  in the source. A merge write overlays the supplied fields onto the stored document:
  a supplied field overwrites the stored field of the same name, a stored field that is
  not supplied is preserved. Nested objects are merged field by field in the same way.
\<close>

fun merge_write :: "pyval \<Rightarrow> pyval \<Rightarrow> pyval"
  and merge_fields :: "pydict \<Rightarrow> pydict \<Rightarrow> pydict" where
  "merge_write (PDict stored) (PDict supplied) = PDict (merge_fields stored supplied)"
| "merge_write stored supplied = supplied"
| "merge_fields stored [] = stored"
| "merge_fields stored ((k, v) # supplied) =
     merge_fields
       (case dict_get stored k of
          None \<Rightarrow> stored @ [(k, v)]
        | Some old \<Rightarrow> dict_set stored k (merge_write old v)) supplied"

text \<open>The field \<open>k\<close> of the nested \<open>Attributes\<close> object of a document.\<close>

definition attr_field :: "pydict \<Rightarrow> string \<Rightarrow> pyval option" where
  "attr_field doc k =
     (case dict_get doc ''Attributes'' of Some (PDict a) \<Rightarrow> dict_get a k | _ \<Rightarrow> None)"

section \<open>A test double and sample records\<close>

text \<open>
  A stateless stand-in for the two platforms, used to run the model on concrete inputs.
  Two emails have an identity already; the store refuses writes to the document of one of
  them; a phone number \<open>bad\<close> is rejected; deleting the identity \<open>u2\<close> fails.
\<close>

definition sample_pages :: page where
  "sample_pages =
     MorePages [\<lparr>uid = ''u1'', email = Some ''a@x.com''\<rparr>, \<lparr>uid = ''u2'', email = None\<rparr>]
       (LastPage [\<lparr>uid = ''u3'', email = Some ''c@x.com''\<rparr>])"

definition test_platform :: "unit platform" where
  "test_platform =
     \<lparr>get_app = (\<lambda>w. (Inr (), w)),
      certificate = (\<lambda>path w. (Inr (), w)),
      initialize_app = (\<lambda>w. (Inr (), w)),
      firestore_client = (\<lambda>w. (Inr (), w)),
      get_user_by_email = (\<lambda>e w.
        if e = ''old@x.com'' then (Inr \<lparr>uid = ''u-old'', email = Some e\<rparr>, w)
        else if e = ''ro@x.com'' then (Inr \<lparr>uid = ''u-ro'', email = Some e\<rparr>, w)
        else (Inl (UserNotFoundError ''No user record found for the provided email.''), w)),
      create_user = (\<lambda>kw w.
        if dict_get kw ''phone_number'' = Some (PStr ''bad'')
        then (Inl (Exception ''Error while calling Auth service (INVALID_PHONE_NUMBER).''), w)
        else (case dict_get kw ''uid'' of
                Some (PStr u) \<Rightarrow> (Inr \<lparr>uid = u, email = None\<rparr>, w)
              | _ \<Rightarrow> (Inl (ValueError ''Invalid uid.''), w))),
      generate_password_reset_link = (\<lambda>e w. (Inr (''https://reset/'' @ e), w)),
      set_document = (\<lambda>doc_id doc merge w.
        if doc_id = ''u-ro'' then (Inl (Exception ''PERMISSION_DENIED''), w)
        else (Inr (), w)),
      stream_documents = (\<lambda>w. (Inr (StreamDoc ''d1'' (StreamDoc ''d2'' (StreamDoc ''d3'' StreamEnd))), w)),
      delete_document = (\<lambda>doc_id w. (Inr (), w)),
      list_users = (\<lambda>w. (Inr sample_pages, w)),
      delete_user = (\<lambda>u w.
        if u = ''u2'' then (Inl (Exception ''INTERNAL_ERROR''), w) else (Inr (), w))\<rparr>"

definition fresh :: "unit state" where
  "fresh = \<lparr>world = (), trace = [], logged = []\<rparr>"

definition sample_user :: "string \<Rightarrow> (string \<times> string) list \<Rightarrow> user_data" where
  "sample_user name attrs =
     \<lparr>Username = name, Attributes = attrs,
      UserCreateDate = PStr ''2024-01-01T00:00:00Z'',
      UserLastModifiedDate = PStr ''2024-01-02T00:00:00Z'',
      Enabled = True, UserStatus = ''CONFIRMED''\<rparr>"

section \<open>Auxiliary facts\<close>

lemma trace_logging [simp]: "trace (logging l m s) = trace s"
  by (simp add: logging_def)

lemma world_logging [simp]: "world (logging l m s) = world s"
  by (simp add: logging_def)

lemma logged_logging [simp]: "logged (logging l m s) = logged s @ [(l, m)]"
  by (simp add: logging_def)

lemma perform_eq:
  "perform f ev s =
     (fst (f (world s)),
      s\<lparr>world := snd (f (world s)), trace := trace s @ [ev (fst (f (world s)))]\<rparr>)"
  by (simp add: perform_def split: prod.splits)

lemma str_nat_0: "str_nat 0 = ''0''"
  by code_simp

lemma str_nat_1: "str_nat 1 = ''1''"
  by code_simp

lemma str_nat_Suc_0: "str_nat (Suc 0) = ''1''"
  using str_nat_1 by simp

lemma str_nat_2: "str_nat 2 = ''2''"
  by code_simp

lemma str_nat_3: "str_nat 3 = ''3''"
  by code_simp

lemma str_nat_Suc_Suc_0: "str_nat (Suc (Suc 0)) = ''2''"
  using str_nat_2 by (simp add: numeral_2_eq_2)

lemma str_nat_Suc_Suc_Suc_0: "str_nat (Suc (Suc (Suc 0))) = ''3''"
  using str_nat_3 by (simp add: numeral_3_eq_3)

lemma lower_TRUE: "lower ''TRUE'' = ''true''"
  by code_simp

lemma lower_True: "lower ''True'' = ''true''"
  by code_simp

lemma lower_1: "lower ''1'' = ''1''"
  by code_simp

lemma dict_get_dict_pop:
  "dict_get (dict_pop d k) k' = (if k' = k then None else dict_get d k')"
  by (induction d) (auto simp add: dict_pop_def)

lemmas run_defs = migrate_user_def migrate_body_def lookup_or_create_def
  create_with_retry_def perform_eq Let_def new_events_def new_logged_def
  test_platform_def fresh_def sample_user_def user_kwargs_def create_firestore_user_data_def
  logging_def phone_issue_def dict_pop_def

section \<open>The migration summary (C1)\<close>

text \<open>
  Claim C1, as amended. A run over a source file whose single record has no email
  attribute logs the summary total 1, success 0, failed 1: the driver counts every
  \<open>None\<close> result of \<^verbatim>\<open>migrate_user\<close> as failed, the skipped record included.
\<close>

theorem skip_counted_as_failed:
  assumes "get_attribute_value (Attributes u) ''email'' = None"
  shows "fst (migrate_users P [u] s) = Inr \<lparr>total = 1, success = 0, failed = 1\<rparr>
         \<and> new_logged s (snd (migrate_users P [u] s)) =
             [(WARNING, ''Skipping user: No email found''),
              (INFO, ''Migration completed!''),
              (INFO, ''Total users processed: 1''),
              (INFO, ''Successfully migrated: 0''),
              (INFO, ''Failed to migrate: 1'')]"
  using assms
  by (simp add: migrate_users_def migrate_user_def new_logged_def str_nat_0 str_nat_Suc_0)

theorem skip_counted_as_failed_witness:
  "get_attribute_value (Attributes (sample_user ''u1'' [(''given_name'', ''Ann'')])) ''email'' = None
   \<and> fst (migrate_users test_platform [sample_user ''u1'' [(''given_name'', ''Ann'')]] fresh)
       = Inr \<lparr>total = 1, success = 0, failed = 1\<rparr>"
  using skip_counted_as_failed
          [of "sample_user ''u1'' [(''given_name'', ''Ann'')]" test_platform fresh]
  by (simp add: sample_user_def)

text \<open>
  Claim C1 as stated fails: on a record with no email the logged summary ends with
  failed 1, not failed 0.
\<close>

theorem skip_summary_failed_one:
  "get_attribute_value (Attributes (sample_user ''u1'' [(''sub'', ''s-1'')])) ''email'' = None
   \<and> logged (snd (migrate_users test_platform [sample_user ''u1'' [(''sub'', ''s-1'')]] fresh)) =
       [(WARNING, ''Skipping user: No email found''),
        (INFO, ''Migration completed!''),
        (INFO, ''Total users processed: 1''),
        (INFO, ''Successfully migrated: 0''),
        (INFO, ''Failed to migrate: 1'')]
   \<and> fst (migrate_users test_platform [sample_user ''u1'' [(''sub'', ''s-1'')]] fresh)
       \<noteq> Inr \<lparr>total = 1, success = 0, failed = 0\<rparr>"
  by (simp add: migrate_users_def migrate_user_def sample_user_def fresh_def logging_def
        str_nat_0 str_nat_Suc_0)

section \<open>The identity-creation request (C2, C3)\<close>

text \<open>
  Claim C2, as amended. The \<open>email_verified\<close> field of the request is true exactly when
  the record's \<open>email_verified\<close> attribute, lower-cased, is \<open>true\<close>; an absent attribute
  gives false.
\<close>

theorem request_email_verified:
  "dict_get (user_kwargs u e) ''email_verified'' =
     Some (PBool (case get_attribute_value (Attributes u) ''email_verified'' of
                    None \<Rightarrow> False | Some v \<Rightarrow> lower v = ''true''))"
  by (cases "get_attribute_value (Attributes u) ''email_verified''")
     (auto simp add: user_kwargs_def Let_def lower_def)

theorem request_email_verified_witness:
  "dict_get (user_kwargs
        (sample_user ''u1'' [(''email'', ''a@x.com''), (''email_verified'', ''True'')]) ''a@x.com'')
        ''email_verified'' = Some (PBool True)
   \<and> dict_get (user_kwargs
        (sample_user ''u2'' [(''email'', ''b@x.com''), (''email_verified'', ''1'')]) ''b@x.com'')
        ''email_verified'' = Some (PBool False)
   \<and> dict_get (user_kwargs (sample_user ''u3'' [(''email'', ''c@x.com'')]) ''c@x.com'')
        ''email_verified'' = Some (PBool False)"
  using request_email_verified
          [of "sample_user ''u1'' [(''email'', ''a@x.com''), (''email_verified'', ''True'')]"
              "''a@x.com''"]
        request_email_verified
          [of "sample_user ''u2'' [(''email'', ''b@x.com''), (''email_verified'', ''1'')]"
              "''b@x.com''"]
        request_email_verified [of "sample_user ''u3'' [(''email'', ''c@x.com'')]" "''c@x.com''"]
  by (simp add: sample_user_def lower_True lower_1)

text \<open>
  Claim C2 as stated fails: the attribute value \<open>TRUE\<close> is not the string \<open>true\<close>, and
  the request carries \<open>email_verified = True\<close>.
\<close>

theorem request_email_verified_upper:
  "get_attribute_value
      (Attributes (sample_user ''u1'' [(''email'', ''a@x.com''), (''email_verified'', ''TRUE'')]))
      ''email_verified'' = Some ''TRUE''
   \<and> ''TRUE'' \<noteq> ''true''
   \<and> dict_get (user_kwargs
        (sample_user ''u1'' [(''email'', ''a@x.com''), (''email_verified'', ''TRUE'')]) ''a@x.com'')
        ''email_verified'' = Some (PBool True)"
  by (simp add: user_kwargs_def sample_user_def lower_TRUE Let_def)

text \<open>
  Claim C3. For a record with a given name \<open>John\<close> and no family name the request's
  \<open>display_name\<close> is \<open>John None\<close>, not the single present name: the f-string renders the
  absent name as the text \<open>None\<close>, and \<^verbatim>\<open>strip\<close> removes white space only.
\<close>

theorem display_name_single_name:
  "dict_get (user_kwargs
        (sample_user ''u1'' [(''email'', ''a@x.com''), (''given_name'', ''John'')]) ''a@x.com'')
        ''display_name'' = Some (PStr ''John None'')"
  by (simp add: user_kwargs_def sample_user_def strip_def isspace_def Let_def)

section \<open>The worker boundary (C4, C7)\<close>

text \<open>
  Claim C4. \<^verbatim>\<open>migrate_user\<close> never raises to its caller. When the record has an email,
  it returns \<open>None\<close> exactly when the last external call it made raised; that exception
  is logged as an error together with the email.
\<close>

theorem worker_never_raises:
  "(\<exists>r. fst (migrate_user P u s) = Inr r)
   \<and> (truthy (get_attribute_value (Attributes u) ''email'') \<longrightarrow>
        (fst (migrate_user P u s) = Inr None)
          = (raised (last (trace (snd (migrate_user P u s)))) \<noteq> None))
   \<and> (\<forall>x. truthy (get_attribute_value (Attributes u) ''email'')
            \<and> raised (last (trace (snd (migrate_user P u s)))) = Some x \<longrightarrow>
          fst (migrate_user P u s) = Inr None
          \<and> last (logged (snd (migrate_user P u s))) =
              (ERROR, ''Error migrating user ''
                 @ fstr (get_attribute_value (Attributes u) ''email'') @ '': '' @ str_exn x))"
  by (auto simp add: migrate_user_def migrate_body_def lookup_or_create_def
        create_with_retry_def perform_eq Let_def
      split: prod.splits sum.splits exn.splits if_splits)

theorem worker_never_raises_witness:
  "truthy (get_attribute_value (Attributes (sample_user ''u5'' [(''email'', ''ro@x.com'')])) ''email'')
   \<and> raised (last (trace (snd (migrate_user test_platform
                (sample_user ''u5'' [(''email'', ''ro@x.com'')]) fresh))))
       = Some (Exception ''PERMISSION_DENIED'')
   \<and> fst (migrate_user test_platform (sample_user ''u5'' [(''email'', ''ro@x.com'')]) fresh)
       = Inr None
   \<and> last (logged (snd (migrate_user test_platform
                (sample_user ''u5'' [(''email'', ''ro@x.com'')]) fresh)))
       = (ERROR, ''Error migrating user ro@x.com: PERMISSION_DENIED'')"
  using worker_never_raises [of test_platform "sample_user ''u5'' [(''email'', ''ro@x.com'')]" fresh]
  by (simp add: run_defs)

text \<open>
  Claim C7. For a record whose email attribute is absent or empty, \<^verbatim>\<open>migrate_user\<close>
  logs one warning and returns \<open>None\<close>; it makes no external call and leaves the outside
  world as it was.
\<close>

theorem skip_without_email:
  assumes "get_attribute_value (Attributes u) ''email'' = None
           \<or> get_attribute_value (Attributes u) ''email'' = Some ''''"
  shows "fst (migrate_user P u s) = Inr None
         \<and> new_events s (snd (migrate_user P u s)) = []
         \<and> world (snd (migrate_user P u s)) = world s
         \<and> new_logged s (snd (migrate_user P u s)) = [(WARNING, ''Skipping user: No email found'')]"
  using assms by (auto simp add: migrate_user_def new_events_def new_logged_def)

theorem skip_without_email_witness:
  "(get_attribute_value (Attributes (sample_user ''u7'' [(''email'', ''''), (''sub'', ''s-7'')]))
        ''email'' = None
    \<or> get_attribute_value (Attributes (sample_user ''u7'' [(''email'', ''''), (''sub'', ''s-7'')]))
        ''email'' = Some '''')
   \<and> fst (migrate_user test_platform
            (sample_user ''u7'' [(''email'', ''''), (''sub'', ''s-7'')]) fresh) = Inr None
   \<and> new_events fresh (snd (migrate_user test_platform
            (sample_user ''u7'' [(''email'', ''''), (''sub'', ''s-7'')]) fresh)) = []"
  using skip_without_email
          [of "sample_user ''u7'' [(''email'', ''''), (''sub'', ''s-7'')]" test_platform fresh]
  by (simp add: sample_user_def)

section \<open>Reusing an existing identity (C5)\<close>

text \<open>
  Claim C5, as amended. When the lookup by email finds an identity, \<^verbatim>\<open>migrate_user\<close>
  makes two external calls only: the lookup, and one write of the mapped document with
  merge set, keyed by the uid of the identity found. No identity is created and no
  reset link is generated. It returns the identity found when the write returns, and
  \<open>None\<close> when the write raises.
\<close>

theorem existing_identity_reused:
  assumes "truthy (get_attribute_value (Attributes u) ''email'')"
    and "fst (get_user_by_email P (fstr (get_attribute_value (Attributes u) ''email'')) (world s))
           = Inr ur"
  shows "\<exists>r. new_events s (snd (migrate_user P u s)) =
               [GetUserByEmail (fstr (get_attribute_value (Attributes u) ''email'')) (Inr ur),
                SetDocument (uid ur) (create_firestore_user_data u ur) True r]
             \<and> fst (migrate_user P u s) = (case r of Inl x \<Rightarrow> Inr None | Inr y \<Rightarrow> Inr (Some ur))"
  using assms
  by (auto simp add: migrate_user_def migrate_body_def lookup_or_create_def
        perform_eq Let_def new_events_def
      split: prod.splits sum.splits exn.splits if_splits)

theorem existing_identity_reused_witness:
  "truthy (get_attribute_value (Attributes (sample_user ''u3'' [(''email'', ''old@x.com'')])) ''email'')
   \<and> fst (get_user_by_email test_platform ''old@x.com'' (world fresh))
       = Inr \<lparr>uid = ''u-old'', email = Some ''old@x.com''\<rparr>
   \<and> new_events fresh (snd (migrate_user test_platform
          (sample_user ''u3'' [(''email'', ''old@x.com'')]) fresh)) =
       [GetUserByEmail ''old@x.com'' (Inr \<lparr>uid = ''u-old'', email = Some ''old@x.com''\<rparr>),
        SetDocument ''u-old''
          (create_firestore_user_data (sample_user ''u3'' [(''email'', ''old@x.com'')])
             \<lparr>uid = ''u-old'', email = Some ''old@x.com''\<rparr>) True (Inr ())]
   \<and> fst (migrate_user test_platform (sample_user ''u3'' [(''email'', ''old@x.com'')]) fresh)
       = Inr (Some \<lparr>uid = ''u-old'', email = Some ''old@x.com''\<rparr>)"
  using existing_identity_reused
          [of "sample_user ''u3'' [(''email'', ''old@x.com'')]" test_platform fresh
              "\<lparr>uid = ''u-old'', email = Some ''old@x.com''\<rparr>"]
  by (simp add: run_defs)

text \<open>
  Claim C5 as stated fails: the email has an identity already, the store refuses the
  write, and \<^verbatim>\<open>migrate_user\<close> returns \<open>None\<close> instead of that identity.
\<close>

theorem existing_identity_write_refused:
  "truthy (get_attribute_value
      (Attributes (sample_user ''u6'' [(''email'', ''ro@x.com''), (''sub'', ''s-6'')])) ''email'')
   \<and> fst (get_user_by_email test_platform ''ro@x.com'' (world fresh))
       = Inr \<lparr>uid = ''u-ro'', email = Some ''ro@x.com''\<rparr>
   \<and> fst (migrate_user test_platform
            (sample_user ''u6'' [(''email'', ''ro@x.com''), (''sub'', ''s-6'')]) fresh) = Inr None
   \<and> fst (migrate_user test_platform
            (sample_user ''u6'' [(''email'', ''ro@x.com''), (''sub'', ''s-6'')]) fresh)
       \<noteq> Inr (Some \<lparr>uid = ''u-ro'', email = Some ''ro@x.com''\<rparr>)"
  by (simp add: run_defs)

section \<open>The document mapper (C9)\<close>

text \<open>
  Claim C9. In the mapped document, \<open>Attributes.email_verified\<close> and
  \<open>Attributes.phone_number_verified\<close> are true exactly when the source attribute is the
  string \<open>true\<close>; an absent attribute and any other string give false.
\<close>

theorem mapper_verified_flags:
  "attr_field (create_firestore_user_data u ur) ''email_verified'' =
     Some (PBool (get_attribute_value (Attributes u) ''email_verified'' = Some ''true''))
   \<and> attr_field (create_firestore_user_data u ur) ''phone_number_verified'' =
     Some (PBool (get_attribute_value (Attributes u) ''phone_number_verified'' = Some ''true''))"
  by (simp add: attr_field_def create_firestore_user_data_def Let_def)

theorem mapper_verified_flags_witness:
  "attr_field (create_firestore_user_data
      (sample_user ''u1'' [(''email_verified'', ''TRUE''), (''phone_number_verified'', ''true'')])
      \<lparr>uid = ''u1'', email = None\<rparr>) ''email_verified'' = Some (PBool False)
   \<and> attr_field (create_firestore_user_data
      (sample_user ''u1'' [(''email_verified'', ''TRUE''), (''phone_number_verified'', ''true'')])
      \<lparr>uid = ''u1'', email = None\<rparr>) ''phone_number_verified'' = Some (PBool True)"
  using mapper_verified_flags
          [of "sample_user ''u1'' [(''email_verified'', ''TRUE''), (''phone_number_verified'', ''true'')]"
              "\<lparr>uid = ''u1'', email = None\<rparr>"]
  by (simp add: sample_user_def)

section \<open>Creating a new identity (C6)\<close>

text \<open>
  Claim C6. When the lookup by email raises \<^verbatim>\<open>UserNotFoundError\<close>, \<^verbatim>\<open>migrate_user\<close> makes
  exactly one create-identity call, unless that call fails with a message naming an
  invalid or already used phone number: then it makes exactly two, the second with the
  request of the first less its \<open>phone_number\<close> field. Any other failure of the first
  call is not retried: no further external call is made, and the failure is caught and
  logged at the worker boundary.
\<close>

theorem new_identity_create_calls:
  assumes "truthy (get_attribute_value (Attributes u) ''email'')"
    and "e = fstr (get_attribute_value (Attributes u) ''email'')"
    and "get_user_by_email P e (world s) = (Inl (UserNotFoundError m), w1)"
    and "kw = user_kwargs u e"
  shows "create_calls (new_events s (snd (migrate_user P u s))) =
           (case fst (create_user P kw w1) of
              Inr created \<Rightarrow> [kw]
            | Inl x \<Rightarrow> if phone_issue x then [kw, dict_pop kw ''phone_number''] else [kw])
         \<and> (\<forall>k. dict_get (dict_pop kw ''phone_number'') k =
                  (if k = ''phone_number'' then None else dict_get kw k))
         \<and> (\<forall>x. fst (create_user P kw w1) = Inl x \<and> \<not> phone_issue x \<longrightarrow>
                new_events s (snd (migrate_user P u s)) =
                  [GetUserByEmail e (Inl (UserNotFoundError m)), CreateUser kw (Inl x)]
                \<and> fst (migrate_user P u s) = Inr None
                \<and> last (logged (snd (migrate_user P u s))) =
                    (ERROR, ''Error migrating user '' @ e @ '': '' @ str_exn x))"
  using assms
  by (auto simp add: migrate_user_def migrate_body_def lookup_or_create_def
        create_with_retry_def perform_eq Let_def new_events_def dict_get_dict_pop
      split: prod.splits sum.splits exn.splits if_splits)

theorem new_identity_create_calls_witness:
  "truthy (get_attribute_value (Attributes (sample_user ''u2''
        [(''email'', ''new@x.com''), (''phone_number'', ''bad'')])) ''email'')
   \<and> get_user_by_email test_platform ''new@x.com'' (world fresh) =
       (Inl (UserNotFoundError ''No user record found for the provided email.''), ())
   \<and> fst (create_user test_platform
        (user_kwargs (sample_user ''u2'' [(''email'', ''new@x.com''), (''phone_number'', ''bad'')])
           ''new@x.com'') ())
       = Inl (Exception ''Error while calling Auth service (INVALID_PHONE_NUMBER).'')
   \<and> phone_issue (Exception ''Error while calling Auth service (INVALID_PHONE_NUMBER).'')
   \<and> create_calls (new_events fresh (snd (migrate_user test_platform
        (sample_user ''u2'' [(''email'', ''new@x.com''), (''phone_number'', ''bad'')]) fresh))) =
       [[(''uid'', PStr ''u2''), (''email'', PStr ''new@x.com''), (''password'', PStr ''Default@123''),
         (''email_verified'', PBool False), (''disabled'', PBool False),
         (''phone_number'', PStr ''bad'')],
        [(''uid'', PStr ''u2''), (''email'', PStr ''new@x.com''), (''password'', PStr ''Default@123''),
         (''email_verified'', PBool False), (''disabled'', PBool False)]]
   \<and> fst (migrate_user test_platform
        (sample_user ''u2'' [(''email'', ''new@x.com''), (''phone_number'', ''bad'')]) fresh)
       = Inr (Some \<lparr>uid = ''u2'', email = None\<rparr>)"
  using new_identity_create_calls
          [of "sample_user ''u2'' [(''email'', ''new@x.com''), (''phone_number'', ''bad'')]"
              "''new@x.com''" test_platform fresh
              "''No user record found for the provided email.''" "()"
              "user_kwargs (sample_user ''u2'' [(''email'', ''new@x.com''), (''phone_number'', ''bad'')])
                 ''new@x.com''"]
  by (simp add: run_defs)

section \<open>Absent attributes in the stored document (C10)\<close>




lemma merge_write_PNone [simp]: "merge_write old PNone = PNone"
  by (cases old) simp_all








section \<open>Deleting every identity (C8)\<close>

lemma delete_attempts_append:
  "delete_attempts (a @ b) = delete_attempts a @ delete_attempts b"
  by (induction a rule: delete_attempts.induct) simp_all

lemma deletes_ok_append: "deletes_ok (a @ b) = deletes_ok a + deletes_ok b"
  by (induction a rule: deletes_ok.induct) simp_all

lemma deletes_raised_append: "deletes_raised (a @ b) = deletes_raised a + deletes_raised b"
  by (induction a rule: deletes_raised.induct) simp_all

lemma quiet_events:
  "\<forall>ev \<in> set evs. \<not> is_auth_event ev \<Longrightarrow>
   delete_attempts evs = [] \<and> deletes_ok evs = 0 \<and> deletes_raised evs = 0
   \<and> (\<forall>r. ListUsers r \<notin> set evs)"
  by (induction evs rule: delete_attempts.induct) auto

lemma delete_events:
  "\<forall>ev \<in> set evs. \<exists>u r. ev = DeleteUser u r \<Longrightarrow>
   deletes_ok evs + deletes_raised evs = length (delete_attempts evs)
   \<and> (\<forall>r. ListUsers r \<notin> set evs)"
proof (induction evs)
  case Nil
  then show ?case by simp
next
  case (Cons ev evs)
  then obtain u r where "ev = DeleteUser u r" by auto
  with Cons show ?case by (cases r) auto
qed

lemma new_events_eq: "trace s' = trace s @ evs \<Longrightarrow> new_events s s' = evs"
  by (simp add: new_events_def)

lemma ensure_app_events:
  "\<exists>evs. trace (snd (ensure_app P s)) = trace s @ evs \<and> (\<forall>ev \<in> set evs. \<not> is_auth_event ev)"
  by (auto simp add: ensure_app_def perform_eq split: prod.splits sum.splits exn.splits)

lemma delete_docs_events:
  "\<exists>evs. trace (snd (delete_docs P docs c s)) = trace s @ evs
         \<and> (\<forall>ev \<in> set evs. \<not> is_auth_event ev)"
proof (induction docs arbitrary: c s)
  case StreamEnd
  show ?case by simp
next
  case (StreamFails e)
  show ?case by simp
next
  case (StreamDoc doc_id docs)
  obtain d f where c: "c = (d, f)" by (cases c)
  obtain r w' where call: "delete_document P doc_id (world s) = (r, w')"
    by (cases "delete_document P doc_id (world s)")
  let ?s1 = "s\<lparr>world := w', trace := trace s @ [DeleteDocument doc_id r]\<rparr>"
  show ?case
  proof (cases r)
    case (Inl e)
    from StreamDoc.IH [of "(d, f + 1)"
        "logging ERROR (''Failed to delete Firestore data for user '' @ doc_id @ '': '' @ str_exn e) ?s1"]
    show ?thesis by (auto simp add: c call Inl perform_eq)
  next
    case (Inr u)
    from StreamDoc.IH [of "(d + 1, f)"
        "logging INFO (''Deleted Firestore data for user: '' @ doc_id) ?s1"]
    show ?thesis by (auto simp add: c call Inr perform_eq)
  qed
qed

lemma delete_firestore_users_events:
  "\<exists>evs. trace (snd (delete_firestore_users P s)) = trace s @ evs
         \<and> (\<forall>ev \<in> set evs. \<not> is_auth_event ev)"
proof -
  obtain r1 s1 where e1: "ensure_app P s = (r1, s1)" by (cases "ensure_app P s")
  from ensure_app_events [of P s] e1 obtain evs1
    where t1: "trace s1 = trace s @ evs1" and q1: "\<forall>ev \<in> set evs1. \<not> is_auth_event ev"
    by auto
  show ?thesis
  proof (cases r1)
    case (Inl e)
    with e1 t1 q1 show ?thesis
      by (auto simp add: delete_firestore_users_def delete_firestore_body_def)
  next
    case r1: (Inr u)
    obtain r2 w2 where e2: "firestore_client P (world s1) = (r2, w2)"
      by (cases "firestore_client P (world s1)")
    let ?s2 = "s1\<lparr>world := w2, trace := trace s1 @ [FirestoreClient r2]\<rparr>"
    show ?thesis
    proof (cases r2)
      case (Inl e)
      with e1 r1 e2 t1 q1 show ?thesis
        by (auto simp add: delete_firestore_users_def delete_firestore_body_def perform_eq)
    next
      case r2: (Inr db)
      obtain r3 w3 where e3: "stream_documents P w2 = (r3, w3)"
        by (cases "stream_documents P w2")
      let ?s3 = "?s2\<lparr>world := w3, trace := trace ?s2 @ [StreamDocuments r3]\<rparr>"
      show ?thesis
      proof (cases r3)
        case (Inl e)
        with e1 r1 e2 r2 e3 t1 q1 show ?thesis
          by (auto simp add: delete_firestore_users_def delete_firestore_body_def perform_eq)
      next
        case r3: (Inr docs)
        from delete_docs_events [of P docs "(0, 0)" ?s3] obtain evs4
          where t4: "trace (snd (delete_docs P docs (0, 0) ?s3)) = trace ?s3 @ evs4"
            and q4: "\<forall>ev \<in> set evs4. \<not> is_auth_event ev"
          by blast
        with e1 r1 e2 r2 e3 r3 t1 q1 show ?thesis
          by (auto simp add: delete_firestore_users_def delete_firestore_body_def perform_eq
                split: prod.splits sum.splits)
      qed
    qed
  qed
qed


lemma delete_page_users_events:
  "\<exists>evs. trace (snd (delete_page_users P users c s)) = trace s @ evs
         \<and> (\<forall>ev \<in> set evs. \<exists>u r. ev = DeleteUser u r)
         \<and> delete_attempts evs = map uid users
         \<and> fst (delete_page_users P users c s) = (fst c + deletes_ok evs, snd c + deletes_raised evs)"
proof (induction users arbitrary: c s)
  case Nil
  show ?case by simp
next
  case (Cons user users)
  obtain d f where c: "c = (d, f)" by (cases c)
  obtain r w' where call: "delete_user P (uid user) (world s) = (r, w')"
    by (cases "delete_user P (uid user) (world s)")
  let ?s1 = "s\<lparr>world := w', trace := trace s @ [DeleteUser (uid user) r]\<rparr>"
  show ?case
  proof (cases r)
    case (Inl e)
    from Cons.IH [of "(d, f + 1)"
        "logging ERROR (''Failed to delete auth user '' @ fstr (email user) @ '': '' @ str_exn e) ?s1"]
    show ?thesis by (auto simp add: c call Inl perform_eq)
  next
    case (Inr x)
    from Cons.IH [of "(d + 1, f)"
        "logging INFO (''Deleted auth user '' @ fstr (email user) @ '' (UID: '' @ uid user @ '')'') ?s1"]
    show ?thesis by (auto simp add: c call Inr perform_eq)
  qed
qed

lemma delete_pages_events:
  "\<exists>evs. trace (snd (delete_pages P p c s)) = trace s @ evs
         \<and> (\<forall>ev \<in> set evs. \<exists>u r. ev = DeleteUser u r)
         \<and> delete_attempts evs = map uid (listed_users p)
         \<and> (case fst (delete_pages P p c s) of
              Inr c' \<Rightarrow> listing_ok p \<and> c' = (fst c + deletes_ok evs, snd c + deletes_raised evs)
            | Inl e \<Rightarrow> \<not> listing_ok p)"
proof (induction p arbitrary: c s)
  case (LastPage users)
  from delete_page_users_events [of P users c s]
  show ?case by (auto split: prod.splits)
next
  case (BrokenPage users e)
  from delete_page_users_events [of P users c s]
  show ?case by (auto split: prod.splits)
next
  case (MorePages users p)
  obtain c1 s1 where run1: "delete_page_users P users c s = (c1, s1)"
    by (cases "delete_page_users P users c s")
  from delete_page_users_events [of P users c s] run1 obtain evs1
    where t1: "trace s1 = trace s @ evs1"
      and d1: "\<forall>ev \<in> set evs1. \<exists>u r. ev = DeleteUser u r"
      and a1: "delete_attempts evs1 = map uid users"
      and c1: "c1 = (fst c + deletes_ok evs1, snd c + deletes_raised evs1)"
    by auto
  from MorePages.IH [of c1 s1] obtain evs2
    where t2: "trace (snd (delete_pages P p c1 s1)) = trace s1 @ evs2"
      and d2: "\<forall>ev \<in> set evs2. \<exists>u r. ev = DeleteUser u r"
      and a2: "delete_attempts evs2 = map uid (listed_users p)"
      and c2: "case fst (delete_pages P p c1 s1) of
                 Inr c' \<Rightarrow> listing_ok p \<and> c' = (fst c1 + deletes_ok evs2, snd c1 + deletes_raised evs2)
               | Inl e \<Rightarrow> \<not> listing_ok p"
    by blast
  have "trace (snd (delete_pages P (MorePages users p) c s)) = trace s @ (evs1 @ evs2)"
    using run1 t1 t2 by simp
  moreover have "\<forall>ev \<in> set (evs1 @ evs2). \<exists>u r. ev = DeleteUser u r"
    using d1 d2 by auto
  moreover have "delete_attempts (evs1 @ evs2) = map uid (listed_users (MorePages users p))"
    using a1 a2 by (simp add: delete_attempts_append)
  moreover have "case fst (delete_pages P (MorePages users p) c s) of
           Inr c' \<Rightarrow> listing_ok (MorePages users p)
                     \<and> c' = (fst c + deletes_ok (evs1 @ evs2), snd c + deletes_raised (evs1 @ evs2))
         | Inl e \<Rightarrow> \<not> listing_ok (MorePages users p)"
    using run1 c1 c2 by (auto simp add: deletes_ok_append deletes_raised_append split: sum.splits)
  ultimately show ?case by blast
qed


lemma cascade_to_store_events:
  "\<exists>evs. trace (snd (cascade_to_store P delete_firestore s)) = trace s @ evs
         \<and> (\<forall>ev \<in> set evs. \<not> is_auth_event ev)"
  using delete_firestore_users_events [of P s]
  by (auto simp add: cascade_to_store_def split: prod.splits sum.splits)

lemma delete_auth_users_shape:
  "\<exists>pre. (\<forall>ev \<in> set pre. \<not> is_auth_event ev)
     \<and> ((new_events s (snd (delete_auth_users P delete_firestore s)) = pre
          \<and> (\<exists>e. fst (delete_auth_users P delete_firestore s) = Inl e))
        \<or> (\<exists>e. new_events s (snd (delete_auth_users P delete_firestore s)) = pre @ [ListUsers (Inl e)]
              \<and> fst (delete_auth_users P delete_firestore s) = Inl e)
        \<or> (\<exists>p dels.
              new_events s (snd (delete_auth_users P delete_firestore s))
                = pre @ ListUsers (Inr p) # dels
              \<and> (\<forall>ev \<in> set dels. \<exists>u r. ev = DeleteUser u r)
              \<and> delete_attempts dels = map uid (listed_users p)
              \<and> (case fst (delete_auth_users P delete_firestore s) of
                    Inr c \<Rightarrow> listing_ok p \<and> c = (deletes_ok dels, deletes_raised dels)
                  | Inl e \<Rightarrow> \<not> listing_ok p)))"
proof -
  obtain r1 s1 where e1: "ensure_app P s = (r1, s1)" by (cases "ensure_app P s")
  from ensure_app_events [of P s] e1 obtain evs1
    where t1: "trace s1 = trace s @ evs1" and q1: "\<forall>ev \<in> set evs1. \<not> is_auth_event ev"
    by auto
  show ?thesis
  proof (cases r1)
    case (Inl e)
    with e1 t1 have "new_events s (snd (delete_auth_users P delete_firestore s)) = evs1"
      and "fst (delete_auth_users P delete_firestore s) = Inl e"
      by (simp_all add: delete_auth_users_def delete_auth_body_def new_events_def)
    with q1 show ?thesis by blast
  next
    case r1: (Inr u)
    obtain r2 s2 where e2: "cascade_to_store P delete_firestore s1 = (r2, s2)"
      by (cases "cascade_to_store P delete_firestore s1")
    from cascade_to_store_events [of P delete_firestore s1] e2 obtain evs2
      where t2: "trace s2 = trace s1 @ evs2" and q2: "\<forall>ev \<in> set evs2. \<not> is_auth_event ev"
      by auto
    from q1 q2 have q12: "\<forall>ev \<in> set (evs1 @ evs2). \<not> is_auth_event ev" by auto
    show ?thesis
    proof (cases r2)
      case (Inl e)
      with e1 r1 e2 t1 t2
      have "new_events s (snd (delete_auth_users P delete_firestore s)) = evs1 @ evs2"
        and "fst (delete_auth_users P delete_firestore s) = Inl e"
        by (simp_all add: delete_auth_users_def delete_auth_body_def new_events_def)
      with q12 show ?thesis by blast
    next
      case r2: (Inr u')
      obtain r3 w3 where e3: "list_users P (world s2) = (r3, w3)"
        by (cases "list_users P (world s2)")
      let ?s3 = "s2\<lparr>world := w3, trace := trace s2 @ [ListUsers r3]\<rparr>"
      show ?thesis
      proof (cases r3)
        case (Inl e)
        with e1 r1 e2 r2 e3 t1 t2
        have "new_events s (snd (delete_auth_users P delete_firestore s))
                = (evs1 @ evs2) @ [ListUsers (Inl e)]"
          and "fst (delete_auth_users P delete_firestore s) = Inl e"
          by (simp_all add: delete_auth_users_def delete_auth_body_def new_events_def perform_eq)
        with q12 show ?thesis by blast
      next
        case r3: (Inr p)
        obtain r4 s4 where e4: "delete_pages P p (0, 0) ?s3 = (r4, s4)"
          by (cases "delete_pages P p (0, 0) ?s3")
        from delete_pages_events [of P p "(0, 0)" ?s3] obtain dels
          where t4': "trace (snd (delete_pages P p (0, 0) ?s3)) = trace ?s3 @ dels"
            and d4: "\<forall>ev \<in> set dels. \<exists>u r. ev = DeleteUser u r"
            and a4: "delete_attempts dels = map uid (listed_users p)"
            and c4': "case fst (delete_pages P p (0, 0) ?s3) of
                       Inr c' \<Rightarrow> listing_ok p
                         \<and> c' = (fst (0 :: nat, 0 :: nat) + deletes_ok dels,
                                 snd (0 :: nat, 0 :: nat) + deletes_raised dels)
                     | Inl e \<Rightarrow> \<not> listing_ok p"
          by blast
        from t4' e4 have t4: "trace s4 = trace ?s3 @ dels" by simp
        from c4' e4 have c4: "case r4 of
                       Inr c \<Rightarrow> listing_ok p \<and> c = (deletes_ok dels, deletes_raised dels)
                     | Inl e \<Rightarrow> \<not> listing_ok p"
          by (simp split: sum.splits)
        from e1 r1 e2 r2 e3 r3 e4 t1 t2 t4
        have "new_events s (snd (delete_auth_users P delete_firestore s))
                = (evs1 @ evs2) @ ListUsers (Inr p) # dels"
          and "fst (delete_auth_users P delete_firestore s) = r4"
          by (auto simp add: delete_auth_users_def delete_auth_body_def new_events_def perform_eq
                split: sum.splits prod.splits)
        with q12 d4 a4 c4 show ?thesis by blast
      qed
    qed
  qed
qed

lemmas delete_defs = delete_auth_users_def delete_auth_body_def cascade_to_store_def
  delete_firestore_users_def delete_firestore_body_def ensure_app_def perform_eq
  test_platform_def fresh_def sample_pages_def new_events_def logging_def
  str_nat_0 str_nat_1 str_nat_Suc_0 str_nat_2 str_nat_3 str_nat_Suc_Suc_0
  str_nat_Suc_Suc_Suc_0

text \<open>
  Claim C8. Whatever the listing returned by \<^verbatim>\<open>auth.list_users\<close> looks like, and whether
  single deletions return or raise, \<^verbatim>\<open>delete_auth_users\<close> calls \<^verbatim>\<open>auth.delete_user\<close> once
  for each listed identity, in order, across all pages. When it returns, the pair it
  returns counts the \<^verbatim>\<open>auth.delete_user\<close> calls that returned and those that raised,
  one or the other for every listed identity; document deletions of the cascade are
  not counted in it.
\<close>

theorem delete_auth_users_attempts:
  "(\<forall>p. ListUsers (Inr p) \<in> set (new_events s (snd (delete_auth_users P delete_firestore s))) \<longrightarrow>
        delete_attempts (new_events s (snd (delete_auth_users P delete_firestore s)))
          = map uid (listed_users p))
   \<and> (\<forall>d f. fst (delete_auth_users P delete_firestore s) = Inr (d, f) \<longrightarrow>
        d = deletes_ok (new_events s (snd (delete_auth_users P delete_firestore s)))
        \<and> f = deletes_raised (new_events s (snd (delete_auth_users P delete_firestore s)))
        \<and> (\<exists>p. ListUsers (Inr p) \<in> set (new_events s (snd (delete_auth_users P delete_firestore s)))
               \<and> listing_ok p \<and> d + f = length (listed_users p)))"
proof -
  let ?new = "new_events s (snd (delete_auth_users P delete_firestore s))"
  let ?res = "fst (delete_auth_users P delete_firestore s)"
  from delete_auth_users_shape [of s P delete_firestore] obtain pre
    where quiet: "\<forall>ev \<in> set pre. \<not> is_auth_event ev"
      and shape: "(?new = pre \<and> (\<exists>e. ?res = Inl e))
        \<or> (\<exists>e. ?new = pre @ [ListUsers (Inl e)] \<and> ?res = Inl e)
        \<or> (\<exists>p dels. ?new = pre @ ListUsers (Inr p) # dels
              \<and> (\<forall>ev \<in> set dels. \<exists>u r. ev = DeleteUser u r)
              \<and> delete_attempts dels = map uid (listed_users p)
              \<and> (case ?res of
                    Inr c \<Rightarrow> listing_ok p \<and> c = (deletes_ok dels, deletes_raised dels)
                  | Inl e \<Rightarrow> \<not> listing_ok p))"
    by blast
  note pre = quiet_events [OF quiet]
  from shape show ?thesis
  proof (elim disjE exE conjE)
    fix e
    assume "?new = pre" and "?res = Inl e"
    with pre show ?thesis by simp
  next
    fix e
    assume "?new = pre @ [ListUsers (Inl e)]" and "?res = Inl e"
    with pre show ?thesis by simp
  next
    fix p dels
    assume new: "?new = pre @ ListUsers (Inr p) # dels"
      and dels: "\<forall>ev \<in> set dels. \<exists>u r. ev = DeleteUser u r"
      and attempts: "delete_attempts dels = map uid (listed_users p)"
      and res: "case ?res of
                  Inr c \<Rightarrow> listing_ok p \<and> c = (deletes_ok dels, deletes_raised dels)
                | Inl e \<Rightarrow> \<not> listing_ok p"
    note del = delete_events [OF dels]
    have only: "p' = p" if "ListUsers (Inr p') \<in> set ?new" for p'
      using that new pre del by auto
    have att: "delete_attempts ?new = map uid (listed_users p)"
      using new pre attempts by (simp add: delete_attempts_append)
    have ok: "deletes_ok ?new = deletes_ok dels"
      and raised: "deletes_raised ?new = deletes_raised dels"
      using new pre by (simp_all add: deletes_ok_append deletes_raised_append)
    have listed: "ListUsers (Inr p) \<in> set ?new"
      using new by simp
    have total: "deletes_ok dels + deletes_raised dels = length (listed_users p)"
      using del attempts by simp
    show ?thesis
    proof (intro conjI allI impI)
      fix p'
      assume "ListUsers (Inr p') \<in> set ?new"
      with only att show "delete_attempts ?new = map uid (listed_users p')" by simp
    next
      fix d f
      assume "?res = Inr (d, f)"
      with res have ok_p: "listing_ok p" and d: "d = deletes_ok dels" and f: "f = deletes_raised dels"
        by simp_all
      from d ok show "d = deletes_ok ?new" by simp
      from f raised show "f = deletes_raised ?new" by simp
      from listed ok_p d f total
      show "\<exists>p. ListUsers (Inr p) \<in> set ?new \<and> listing_ok p \<and> d + f = length (listed_users p)"
        by blast
    qed
  qed
qed

theorem delete_auth_users_attempts_witness:
  "ListUsers (Inr sample_pages)
      \<in> set (new_events fresh (snd (delete_auth_users test_platform True fresh)))
   \<and> listed_users sample_pages =
       [\<lparr>uid = ''u1'', email = Some ''a@x.com''\<rparr>, \<lparr>uid = ''u2'', email = None\<rparr>,
        \<lparr>uid = ''u3'', email = Some ''c@x.com''\<rparr>]
   \<and> delete_attempts (new_events fresh (snd (delete_auth_users test_platform True fresh)))
       = [''u1'', ''u2'', ''u3'']
   \<and> fst (delete_auth_users test_platform True fresh) = Inr (2, 1)
   \<and> (INFO, ''Firestore deletion: Deleted 3, Failed 0'')
       \<in> set (logged (snd (delete_auth_users test_platform True fresh)))"
  using delete_auth_users_attempts [of fresh test_platform True]
  by (simp add: delete_defs)

end
